theory Spec2Isabelle
  imports Complex_Main "HOL-Library.Word" "HOL-Library.Signed_Division"
begin

section \<open>EnvironmentMonitor: sampling, windowed averaging and delivery\<close>

text \<open>
  A shallow embedding of \<^verbatim>\<open>main.go\<close>. Every goroutine is a function from what
  it receives (the values delivered on its input channel, and whether that channel was then
  closed) to the sequence of actions it performs, in program order, and the way it ends.
  Channels have one sender and one receiver each, so the values a stage receives are the
  values the stage before it sent, in order.
\<close>

subsection \<open>Data: package physic\<close>

text \<open>
  \<^verbatim>\<open>physic.Env\<close> is declared in the imported package
  \<^verbatim>\<open>periph.io/x/conn/v3/physic\<close>: \<^verbatim>\<open>Temperature\<close> is an
  \<^verbatim>\<open>int64\<close> counting nanokelvin, \<^verbatim>\<open>Pressure\<close> an \<^verbatim>\<open>int64\<close>
  counting nanopascal, and \<^verbatim>\<open>RelativeHumidity\<close> an \<^verbatim>\<open>int32\<close> counting
  tenths of a micro-percent of relative humidity. Go's \<^verbatim>\<open>int\<close> is taken at its
  64-bit width.
\<close>

type_synonym int64 = "64 word"
type_synonym int32 = "32 word"
type_synonym go_int = "64 word"

record Env =
  Temperature :: int64
  Pressure :: int64
  Humidity :: int32

definition Kelvin :: int64 where
  "Kelvin = 1000000000"

definition ZeroCelsius :: int64 where
  "ZeroCelsius = 273150 * 1000000"

definition Pascal :: int64 where
  "Pascal = 1000000000"

definition PercentRH :: int32 where
  "PercentRH = 100000"

text \<open>The zero value \<^verbatim>\<open>physic.Env{}\<close>.\<close>

definition Env_zero :: Env where
  "Env_zero = \<lparr>Temperature = 0, Pressure = 0, Humidity = 0\<rparr>"

subsection \<open>Actions and endings of a goroutine\<close>

datatype chan = Logging | Totals | Averaged

datatype panic = DivideByZero | NonPositiveTicker | SendOnClosedChannel

text \<open>
  A point as \<^verbatim>\<open>influxdb2.NewPoint\<close> receives it. The three fields are
  \<^verbatim>\<open>float64\<close> values in the source; here each is the rational number that the
  conversion denotes, the rounding of binary64 arithmetic being left out.
\<close>

record point =
  measurement :: string
  temp :: rat
  pressure :: rat
  humidity :: rat
  stamp :: nat

datatype goroutine = ComputeSum go_int | AverageStream go_int | LogToDatabase

datatype event =
    Send chan Env
  | Close chan
  | Print string
  | PrintEnv Env
  | Go goroutine
  | WritePoint point bool
  | FlagError
  | HostInit
  | OpenBus
  | NewDev
  | MakeChan chan nat
  | SignalNotify
  | NewTicker int64
  | Sense
  | LogFatal
  | DevHalt
  | BusClose

text \<open>
  How a goroutine stands after the actions listed: it returned, it waits on an empty channel
  that is still open, a run-time panic (its own, or one of another goroutine) crashed the
  process, it ended the process with an exit status, or its loop is still turning (the
  model's fuel ran out).
\<close>

datatype ending = Returned | Blocked | Panicked panic | Exited nat | Unfinished

subsection \<open>computeSum\<close>

text \<open>
  \<^verbatim>\<open>total.Temperature += env.Temperature\<close> and its two siblings: the accumulator
  is a \<^verbatim>\<open>physic.Env\<close> itself, so each addition wraps at the width of the field.
\<close>

definition accumulate :: "Env \<Rightarrow> Env \<Rightarrow> Env" where
  "accumulate tot env =
     \<lparr>Temperature = Temperature tot + Temperature env,
      Pressure = Pressure tot + Pressure env,
      Humidity = Humidity tot + Humidity env\<rparr>"

text \<open>
  The inner loop \<^verbatim>\<open>for i := 0; i < steps; i++\<close>, with \<open>k\<close> iterations to go:
  either it completes with the sum and the input left over, or the input runs dry first.
  Each value received is printed.
\<close>

datatype window_result = Full Env "Env list" | Dry

fun window :: "nat \<Rightarrow> Env \<Rightarrow> Env list \<Rightarrow> event list \<times> window_result" where
  "window 0 tot input = ([], Full tot input)"
| "window (Suc k) tot [] = ([], Dry)"
| "window (Suc k) tot (env # input) =
     (let (evs, r) = window k (accumulate tot env) input
      in (PrintEnv env # evs, r))"

text \<open>
  The outer \<^verbatim>\<open>for\<close> loop. \<open>fuel\<close> bounds the number of windows started. When
  the input runs dry inside a window, a closed input makes the function close \<open>output\<close>
  and return (the deferred print runs then); an open one leaves it waiting.
\<close>

fun computeSum :: "nat \<Rightarrow> go_int \<Rightarrow> Env list \<Rightarrow> bool \<Rightarrow> chan \<Rightarrow> event list \<times> ending" where
  "computeSum 0 steps input is_closed output = ([], Unfinished)"
| "computeSum (Suc fuel) steps input is_closed output =
     (case window (nat (sint steps)) Env_zero input of
        (evs, Full tot rest) \<Rightarrow>
          (let (evs', e) = computeSum fuel steps rest is_closed output
           in (evs @ Send output tot # evs', e))
      | (evs, Dry) \<Rightarrow>
          (if is_closed then (evs @ [Close output, Print ''computeSum finished''], Returned)
           else (evs, Blocked)))"

subsection \<open>averageStream\<close>

text \<open>
  Go's \<^verbatim>\<open>/\<close> on \<^verbatim>\<open>int64\<close>: the quotient truncated toward zero, wrapped to
  64 bits (only the most negative value divided by \<open>-1\<close> wraps). A zero divisor is a
  run-time panic and is checked by the caller below.
\<close>

definition div64 :: "int64 \<Rightarrow> int64 \<Rightarrow> int64" where
  "div64 a b = word_of_int (sint a sdiv sint b)"

text \<open>
  The body of the \<^verbatim>\<open>range\<close> loop up to the send. \<^verbatim>\<open>int64(total.Humidity)\<close>
  sign-extends, \<^verbatim>\<open>physic.RelativeHumidity(...)\<close> keeps the low 32 bits.
\<close>

definition average_total :: "go_int \<Rightarrow> Env \<Rightarrow> panic + Env" where
  "average_total steps tot =
     (let divisor = (scast steps :: int64)
      in if divisor = 0 then Inl DivideByZero
         else Inr \<lparr>Temperature = div64 (Temperature tot) divisor,
                   Pressure = div64 (Pressure tot) divisor,
                   Humidity = ucast (div64 (scast (Humidity tot)) divisor)\<rparr>)"

text \<open>
  \<^verbatim>\<open>for total := range totals\<close>, run over what the \<^verbatim>\<open>computeSum\<close>
  goroutine did: a value sent on \<open>totals\<close> is normalised and sent on \<open>averages\<close>, the
  closing of \<open>totals\<close> ends the loop and the function returns. When the sender has nothing
  more, the loop stands as the sender does.
\<close>

fun range_totals :: "go_int \<Rightarrow> chan \<Rightarrow> chan \<Rightarrow> event list \<Rightarrow> ending \<Rightarrow> event list \<times> ending" where
  "range_totals steps totals averages [] e = ([], e)"
| "range_totals steps totals averages (Send c tot # evs) e =
     (if c = totals then
        (case average_total steps tot of
           Inl p \<Rightarrow> ([], Panicked p)
         | Inr average \<Rightarrow>
             (let (tr, e') = range_totals steps totals averages evs e
              in (Send averages average # tr, e')))
      else range_totals steps totals averages evs e)"
| "range_totals steps totals averages (Close c # evs) e =
     (if c = totals then ([], Returned) else range_totals steps totals averages evs e)"
| "range_totals steps totals averages (_ # evs) e = range_totals steps totals averages evs e"

definition averageStream :: "nat \<Rightarrow> go_int \<Rightarrow> Env list \<Rightarrow> bool \<Rightarrow> chan \<Rightarrow> event list \<times> ending" where
  "averageStream fuel steps logging is_closed averages =
     (let (evs, e) = computeSum fuel steps logging is_closed Totals;
          (tr, e') = range_totals steps Totals averages evs e
      in (Go (ComputeSum steps) # tr, e'))"

text \<open>The values a goroutine sent on a channel, in order.\<close>

fun sent :: "chan \<Rightarrow> event list \<Rightarrow> Env list" where
  "sent c [] = []"
| "sent c (Send c' v # evs) = (if c' = c then v # sent c evs else sent c evs)"
| "sent c (_ # evs) = sent c evs"

subsection \<open>logToDatabase\<close>

text \<open>
  \<^verbatim>\<open>Temperature.Celsius\<close> of package physic:
  \<^verbatim>\<open>float64(t-ZeroCelsius) / float64(Kelvin)\<close>.
\<close>

definition Celsius :: "int64 \<Rightarrow> rat" where
  "Celsius t = of_int (sint (t - ZeroCelsius)) / of_int (sint Kelvin)"

text \<open>
  The three conversions and \<^verbatim>\<open>influxdb2.NewPoint\<close>; \<open>now\<close> is what
  \<^verbatim>\<open>time.Now()\<close> returns.
\<close>

definition NewPoint :: "Env \<Rightarrow> nat \<Rightarrow> point" where
  "NewPoint data now =
     \<lparr>measurement = ''env'',
      temp = Celsius (Temperature data),
      pressure = (1 / 100) * of_int (sint (Pressure data)) / of_int (sint Pascal),
      humidity = of_int (sint (Humidity data)) / of_int (sint PercentRH),
      stamp = now\<rparr>"

text \<open>
  \<^verbatim>\<open>for data := range datapoints\<close>. The surroundings answer the \<open>k\<close>-th
  pass of the loop: \<open>clock k\<close> is the time read, \<open>write_ok k\<close> tells whether
  \<^verbatim>\<open>WritePoint\<close> returned no error. The source drops what
  \<^verbatim>\<open>WritePoint\<close> returns; the action records it.
\<close>

fun range_datapoints :: "(nat \<Rightarrow> nat) \<Rightarrow> (nat \<Rightarrow> bool) \<Rightarrow> nat \<Rightarrow> Env list \<Rightarrow> event list" where
  "range_datapoints clock write_ok k [] = []"
| "range_datapoints clock write_ok k (data # rest) =
     Print ''Writing record'' # PrintEnv data #
     WritePoint (NewPoint data (clock k)) (write_ok k) #
     range_datapoints clock write_ok (Suc k) rest"

definition logToDatabase :: "(nat \<Rightarrow> nat) \<Rightarrow> (nat \<Rightarrow> bool) \<Rightarrow> Env list \<Rightarrow> bool \<Rightarrow> event list \<times> ending" where
  "logToDatabase clock write_ok datapoints is_closed =
     (range_datapoints clock write_ok 0 datapoints, if is_closed then Returned else Blocked)"

text \<open>The points a goroutine handed to the sink, in order.\<close>

fun written :: "event list \<Rightarrow> point list" where
  "written [] = []"
| "written (WritePoint p ok # evs) = p # written evs"
| "written (_ # evs) = written evs"

text \<open>The lines a goroutine printed, in order.\<close>

fun printed :: "event list \<Rightarrow> string list" where
  "printed [] = []"
| "printed (Print s # evs) = s # printed evs"
| "printed (_ # evs) = printed evs"

subsection \<open>readSensor and pollInterval\<close>

text \<open>What \<^verbatim>\<open>dev.Sense\<close> answers: an error, or a reading.\<close>

datatype sense = SenseError | Sensed Env

text \<open>\<^verbatim>\<open>log.Fatal\<close> prints and calls \<^verbatim>\<open>os.Exit(1)\<close>.\<close>

definition readSensor :: "sense \<Rightarrow> chan \<Rightarrow> event list \<times> ending" where
  "readSensor dev logging =
     (case dev of
        SenseError \<Rightarrow> ([Sense, LogFatal], Exited 1)
      | Sensed env \<Rightarrow> ([Sense, PrintEnv env, Send logging env], Returned))"

text \<open>
  What one \<^verbatim>\<open>select\<close> of the polling loop takes: a signal, or a tick, at which
  the sensor answers \<open>'r\<close>.
\<close>

datatype 'r select = Sig | Tick 'r

fun poll_loop :: "('r \<Rightarrow> event list \<times> ending) \<Rightarrow> 'r select list \<Rightarrow> event list \<times> ending" where
  "poll_loop callable [] = ([], Blocked)"
| "poll_loop callable (Sig # later) = ([Print ''Signal received''], Returned)"
| "poll_loop callable (Tick r # later) =
     (case callable r of
        (evs, Returned) \<Rightarrow>
          (let (evs', e) = poll_loop callable later
           in (Print ''Tick at'' # evs @ evs', e))
      | (evs, e) \<Rightarrow> (Print ''Tick at'' # evs, e))"

text \<open>
  \<^verbatim>\<open>time.NewTicker\<close> panics on a duration that is not positive; the source
  hands it \<open>interval\<close> as it comes.
\<close>

definition pollInterval :: "('r \<Rightarrow> event list \<times> ending) \<Rightarrow> int64 \<Rightarrow> 'r select list \<Rightarrow> event list \<times> ending" where
  "pollInterval callable interval selects =
     (if sint interval \<le> 0 then ([SignalNotify, NewTicker interval], Panicked NonPositiveTicker)
      else (let (evs, e) = poll_loop callable selects
            in (SignalNotify # NewTicker interval # Print ''Hello'' # evs, e)))"

subsection \<open>parseFlags\<close>

text \<open>
  What the command line holds for one flag: nothing, an integer in the range of
  \<^verbatim>\<open>int\<close>, or something that package flag does not read as one. On the last,
  \<^verbatim>\<open>flag.Parse\<close> prints the usage and exits with status 2.
\<close>

datatype flag_arg = Absent | Value go_int | Malformed

definition IntVar :: "go_int \<Rightarrow> flag_arg \<Rightarrow> go_int option" where
  "IntVar dflt a = (case a of Absent \<Rightarrow> Some dflt | Value v \<Rightarrow> Some v | Malformed \<Rightarrow> None)"

definition parseFlags :: "flag_arg \<Rightarrow> flag_arg \<Rightarrow> (go_int \<times> go_int) option" where
  "parseFlags window_flag read_interval_flag =
     (case (IntVar 8 window_flag, IntVar 15 read_interval_flag) of
        (Some window_size, Some read_interval_secs) \<Rightarrow> Some (window_size, read_interval_secs)
      | _ \<Rightarrow> None)"

subsection \<open>main\<close>

text \<open>
  What the averager does while \<^verbatim>\<open>main\<close> runs its deferred calls. The first of
  them is \<^verbatim>\<open>close(averaged)\<close>, and \<^verbatim>\<open>averageStream\<close> sends on that channel
  (\<^verbatim>\<open>averages <- average\<close>) in a goroutine of its own. Either no send of it meets
  the closed channel before the process is gone, or one does, pending at the close or made
  after it: that send panics, and the panic ends the process when \<^verbatim>\<open>main\<close> has
  run \<open>k\<close> more of its deferred calls.
\<close>

datatype race = Quiet | SendOnClosed nat

record world =
  arg_window :: flag_arg
  arg_read_interval :: flag_arg
  host_ok :: bool
  bus_ok :: bool
  dev_ok :: bool
  selects :: "sense select list"
  at_close :: race

definition getBus :: "bool \<Rightarrow> event list \<times> ending" where
  "getBus ok = (if ok then ([OpenBus], Returned) else ([OpenBus, LogFatal], Exited 1))"

definition getDevice :: "bool \<Rightarrow> event list \<times> ending" where
  "getDevice ok = (if ok then ([NewDev], Returned) else ([NewDev, LogFatal], Exited 1))"

definition Second :: int64 where
  "Second = 1000000000"

text \<open>
  How \<^verbatim>\<open>main\<close> ends, given the stack of its deferred calls (the last one
  registered first, which in \<^verbatim>\<open>main\<close> is \<^verbatim>\<open>close(averaged)\<close>). Returning
  runs them: when no send of the averager meets the closed channel, all of them run and the
  process exits with status 0; when one does, the close and \<open>k\<close> more calls have run when
  the panic of that send crashes the process. A panic of \<^verbatim>\<open>main\<close> itself runs them
  while unwinding; \<^verbatim>\<open>os.Exit\<close> ends the process at once and runs none.
\<close>

definition leave :: "event list \<Rightarrow> race \<Rightarrow> event list \<times> ending \<Rightarrow> event list \<times> ending" where
  "leave deferred averager r =
     (case r of
        (evs, Returned) \<Rightarrow>
          (case averager of
             Quiet \<Rightarrow> (evs @ deferred, Exited 0)
           | SendOnClosed k \<Rightarrow> (evs @ take (Suc k) deferred, Panicked SendOnClosedChannel))
      | (evs, Panicked p) \<Rightarrow> (evs @ deferred, Panicked p)
      | (evs, e) \<Rightarrow> (evs, e))"

definition main :: "world \<Rightarrow> event list \<times> ending" where
  "main w =
     (case parseFlags (arg_window w) (arg_read_interval w) of
        None \<Rightarrow> ([FlagError], Exited 2)
      | Some (window_size, read_interval_secs) \<Rightarrow>
          if \<not> host_ok w then ([HostInit, LogFatal], Exited 1)
          else
            (case getBus (bus_ok w) of
               (bus_evs, Returned) \<Rightarrow>
                 (let deferred1 = [BusClose] in
                  case getDevice (dev_ok w) of
                    (dev_evs, Returned) \<Rightarrow>
                      (let deferred2 = DevHalt # deferred1;
                           deferred3 = Close Logging # deferred2;
                           deferred4 = Close Averaged # deferred3;
                           (evs, e) = pollInterval (\<lambda>dev. readSensor dev Logging)
                                        (scast read_interval_secs * Second) (selects w)
                       in leave deferred4 (at_close w)
                            (HostInit # bus_evs @ dev_evs @
                             [MakeChan Logging 1, MakeChan Averaged 1,
                              Go (AverageStream window_size), Go LogToDatabase] @ evs, e))
                  | (dev_evs, e) \<Rightarrow> (HostInit # bus_evs @ dev_evs, e))
             | (bus_evs, e) \<Rightarrow> (HostInit # bus_evs, e)))"

section \<open>Notions used to state the properties\<close>

text \<open>An integer lies in the range of a signed field of \<open>w\<close> bits.\<close>

definition fits :: "nat \<Rightarrow> int \<Rightarrow> bool" where
  "fits w k = (- (2 ^ (w - 1)) \<le> k \<and> k < 2 ^ (w - 1))"


text \<open>
  The windows as the specification words them: consecutive runs of exactly \<open>n\<close> readings; what
  is left at the end, fewer than \<open>n\<close>, makes no window.
\<close>

function spec_windows :: "nat \<Rightarrow> 'a list \<Rightarrow> 'a list list" where
  "spec_windows n xs =
     (if n = 0 \<or> length xs < n then [] else take n xs # spec_windows n (drop n xs))"
  by pat_completeness auto
termination
  by (relation "measure (\<lambda>(n, xs). length xs)") auto

text \<open>What \<^verbatim>\<open>main\<close> does up to the first \<^verbatim>\<open>select\<close> when nothing fails.\<close>

definition startup :: "go_int \<Rightarrow> int64 \<Rightarrow> event list" where
  "startup window_size interval =
     [HostInit, OpenBus, NewDev, MakeChan Logging 1, MakeChan Averaged 1,
      Go (AverageStream window_size), Go LogToDatabase,
      SignalNotify, NewTicker interval, Print ''Hello'']"

text \<open>What one tick with a good reading does.\<close>

definition tick_actions :: "Env \<Rightarrow> event list" where
  "tick_actions env = [Print ''Tick at'', Sense, PrintEnv env, Send Logging env]"

definition healthy :: "world \<Rightarrow> bool" where
  "healthy w = (host_ok w \<and> bus_ok w \<and> dev_ok w)"

text \<open>What one pass of the sink loop does for the \<open>k\<close>-th record.\<close>

definition attempt :: "(nat \<Rightarrow> nat) \<Rightarrow> (nat \<Rightarrow> bool) \<Rightarrow> nat \<times> Env \<Rightarrow> event list" where
  "attempt clock write_ok kd =
     [Print ''Writing record'', PrintEnv (snd kd),
      WritePoint (NewPoint (snd kd) (clock (fst kd))) (write_ok (fst kd))]"

text \<open>
  The averager as one loop: what \<^verbatim>\<open>averageStream\<close> sends and how it ends, without
  the action that starts \<^verbatim>\<open>computeSum\<close>.
\<close>

definition averaged :: "nat \<Rightarrow> go_int \<Rightarrow> Env list \<Rightarrow> bool \<Rightarrow> chan \<Rightarrow> event list \<times> ending" where
  "averaged fuel steps xs c averages =
     range_totals steps Totals averages (fst (computeSum fuel steps xs c Totals))
       (snd (computeSum fuel steps xs c Totals))"

subsection \<open>Concrete inputs\<close>

text \<open>20 degrees Celsius, one standard atmosphere, 40 percent relative humidity.\<close>

definition reading :: Env where
  "reading = \<lparr>Temperature = 293150000000, Pressure = 101325000000000, Humidity = 4000000\<rparr>"

text \<open>The same air at 100 percent relative humidity.\<close>

definition saturated :: Env where
  "saturated = \<lparr>Temperature = 293150000000, Pressure = 101325000000000, Humidity = 10000000\<rparr>"

text \<open>
  The three readings of the specification's end-to-end scenario: 20, 21 and 22 degrees
  Celsius, 1000, 1002 and 1001 hectopascal, 40, 42 and 41 percent.
\<close>

definition scenario :: "Env list" where
  "scenario =
     [\<lparr>Temperature = 293150000000, Pressure = 100000000000000, Humidity = 4000000\<rparr>,
      \<lparr>Temperature = 294150000000, Pressure = 100200000000000, Humidity = 4200000\<rparr>,
      \<lparr>Temperature = 295150000000, Pressure = 100100000000000, Humidity = 4100000\<rparr>]"

text \<open>
  A run with the default flags in which start-up succeeds and no send of the averager meets
  a closed channel.
\<close>

definition lab :: "sense select list \<Rightarrow> world" where
  "lab sel =
     \<lparr>arg_window = Absent, arg_read_interval = Absent, host_ok = True, bus_ok = True,
      dev_ok = True, selects = sel, at_close = Quiet\<rparr>"


text \<open>
  A run with a window of one reading and an interval of one second, three good ticks and then
  a signal, in which the averager has a send pending when \<^verbatim>\<open>main\<close> closes the
  channel and the panic ends the process before another deferred call has run.
\<close>

definition busy_shutdown :: world where
  "busy_shutdown =
     \<lparr>arg_window = Value 1, arg_read_interval = Value 1, host_ok = True, bus_ok = True,
      dev_ok = True,
      selects = [Tick (Sensed reading), Tick (Sensed reading), Tick (Sensed reading), Sig],
      at_close = SendOnClosed 0\<rparr>"

text \<open>A sink whose first write fails, one that never fails, and a clock.\<close>

definition first_write_fails :: "nat \<Rightarrow> bool" where
  "first_write_fails k = (k \<noteq> 0)"

definition sink_up :: "nat \<Rightarrow> bool" where
  "sink_up k = True"

definition wall_clock :: "nat \<Rightarrow> nat" where
  "wall_clock k = 1700000000 + 120 * k"

section \<open>Properties of the stages\<close>

subsection \<open>The window loop and computeSum\<close>

lemma window_prints: "fst (window k tot xs) = map PrintEnv (take k xs)"
  by (induction k tot xs rule: window.induct) (simp_all add: split_beta)

lemma window_Full:
  "k \<le> length xs \<Longrightarrow>
   snd (window k tot xs) = Full (foldl accumulate tot (take k xs)) (drop k xs)"
  by (induction k tot xs rule: window.induct) (simp_all add: split_beta)

lemma window_Dry: "length xs < k \<Longrightarrow> snd (window k tot xs) = Dry"
  by (induction k tot xs rule: window.induct) (simp_all add: split_beta)

lemma computeSum_Full:
  "nat (sint steps) \<le> length xs \<Longrightarrow>
   computeSum (Suc fuel) steps xs c out =
     (map PrintEnv (take (nat (sint steps)) xs) @
        Send out (foldl accumulate Env_zero (take (nat (sint steps)) xs)) #
        fst (computeSum fuel steps (drop (nat (sint steps)) xs) c out),
      snd (computeSum fuel steps (drop (nat (sint steps)) xs) c out))"
  using window_Full [of "nat (sint steps)" xs Env_zero]
    window_prints [of "nat (sint steps)" Env_zero xs]
  by (cases "window (nat (sint steps)) Env_zero xs") (simp add: split_beta)

lemma computeSum_Dry:
  "length xs < nat (sint steps) \<Longrightarrow>
   computeSum (Suc fuel) steps xs c out =
     (if c then (map PrintEnv xs @ [Close out, Print ''computeSum finished''], Returned)
      else (map PrintEnv xs, Blocked))"
  using window_Dry [of xs "nat (sint steps)" Env_zero]
    window_prints [of "nat (sint steps)" Env_zero xs]
  by (cases "window (nat (sint steps)) Env_zero xs") (simp add: split_beta)

declare computeSum.simps(2) [simp del]
declare spec_windows.simps [simp del]

lemma range_totals_prints:
  "range_totals steps t a (map PrintEnv ys @ evs) e = range_totals steps t a evs e"
  by (induction ys) simp_all

lemma range_totals_only_prints:
  "range_totals steps t a (map PrintEnv ys) e = ([], e)"
  using range_totals_prints [of steps t a ys "[]" e] by simp

lemma sent_prints: "sent ch (map PrintEnv ys @ evs) = sent ch evs"
  by (induction ys) simp_all

lemma computeSum_open_no_Close:
  "Close ch \<notin> set (fst (computeSum fuel steps xs False out))"
proof (induction fuel arbitrary: xs)
  case 0
  show ?case by simp
next
  case (Suc fuel)
  show ?case
  proof (cases "nat (sint steps) \<le> length xs")
    case True
    then show ?thesis using Suc.IH by (auto simp add: computeSum_Full)
  next
    case False
    then show ?thesis by (auto simp add: computeSum_Dry)
  qed
qed

lemma div_after_window:
  fixes n :: nat
  assumes "0 < n" "n \<le> m"
  shows "m div n = Suc ((m - n) div n)"
  using assms by (simp add: le_div_geq)

lemma computeSum_closed_Close:
  assumes "1 \<le> sint steps"
  shows "length xs div nat (sint steps) < fuel \<Longrightarrow>
     Close out \<in> set (fst (computeSum fuel steps xs True out))"
proof (induction fuel arbitrary: xs)
  case 0
  then show ?case by simp
next
  case (Suc fuel)
  have n: "0 < nat (sint steps)" using assms by simp
  show ?case
  proof (cases "nat (sint steps) \<le> length xs")
    case False
    then show ?thesis by (simp add: computeSum_Dry)
  next
    case True
    have "length (drop (nat (sint steps)) xs) div nat (sint steps) < fuel"
      using Suc.prems div_after_window [OF n True] by simp
    from Suc.IH [OF this] show ?thesis by (simp add: computeSum_Full [OF True])
  qed
qed

lemma length_spec_windows: "0 < n \<Longrightarrow> length (spec_windows n xs) = length xs div n"
proof (induction n xs rule: spec_windows.induct)
  case (1 n xs)
  show ?case
  proof (cases "length xs < n")
    case True
    then show ?thesis by (subst spec_windows.simps) simp
  next
    case False
    then have le: "n \<le> length xs" by simp
    have "length (spec_windows n (drop n xs)) = (length xs - n) div n"
      using "1.IH" "1.prems" False by simp
    then show ?thesis
      using "1.prems" False div_after_window [OF "1.prems" le]
      by (subst spec_windows.simps) simp
  qed
qed

subsection \<open>averageStream\<close>

lemma averageStream_averaged:
  "averageStream fuel steps xs c averages =
     (Go (ComputeSum steps) # fst (averaged fuel steps xs c averages),
      snd (averaged fuel steps xs c averages))"
  by (simp add: averageStream_def averaged_def split_beta)

lemma averaged_Dry:
  "length xs < nat (sint steps) \<Longrightarrow>
   averaged (Suc fuel) steps xs c averages = ([], if c then Returned else Blocked)"
  by (simp add: averaged_def computeSum_Dry range_totals_prints range_totals_only_prints)

lemma averaged_Full:
  "nat (sint steps) \<le> length xs \<Longrightarrow>
   average_total steps (foldl accumulate Env_zero (take (nat (sint steps)) xs)) = Inr average \<Longrightarrow>
   averaged (Suc fuel) steps xs c averages =
     (Send averages average # fst (averaged fuel steps (drop (nat (sint steps)) xs) c averages),
      snd (averaged fuel steps (drop (nat (sint steps)) xs) c averages))"
  by (simp add: averaged_def computeSum_Full range_totals_prints split_beta)

lemma average_total_Inr:
  "steps \<noteq> 0 \<Longrightarrow> \<exists>average. average_total steps tot = Inr average"
  by (simp add: average_total_def)

lemma averaged_windows:
  assumes "1 \<le> sint steps"
  shows "length xs div nat (sint steps) < fuel \<Longrightarrow>
     map Inr (sent averages (fst (averaged fuel steps xs c averages))) =
       map (\<lambda>ys. average_total steps (foldl accumulate Env_zero ys))
         (spec_windows (nat (sint steps)) xs)
     \<and> snd (averaged fuel steps xs c averages) = (if c then Returned else Blocked)
     \<and> (\<forall>ch. Close ch \<notin> set (fst (averaged fuel steps xs c averages)))"
proof (induction fuel arbitrary: xs)
  case 0
  then show ?case by simp
next
  case (Suc fuel)
  let ?n = "nat (sint steps)"
  have n: "0 < ?n" using assms by simp
  have s: "steps \<noteq> 0" using assms by auto
  show ?case
  proof (cases "?n \<le> length xs")
    case False
    then have "spec_windows ?n xs = []" by (simp add: spec_windows.simps)
    with False show ?thesis by (simp add: averaged_Dry)
  next
    case True
    obtain average
      where a: "average_total steps (foldl accumulate Env_zero (take ?n xs)) = Inr average"
      using average_total_Inr [OF s] by blast
    have "length (drop ?n xs) div ?n < fuel"
      using Suc.prems div_after_window [OF n True] by simp
    note IH = Suc.IH [OF this]
    have w: "spec_windows ?n xs = take ?n xs # spec_windows ?n (drop ?n xs)"
      using True n by (subst spec_windows.simps) simp
    show ?thesis
      using IH by (simp add: averaged_Full [OF True a] w a)
  qed
qed

subsection \<open>Sums in the width of a field\<close>

lemma foldl_accumulate:
  "foldl accumulate tot xs =
     \<lparr>Temperature = Temperature tot + sum_list (map Temperature xs),
      Pressure = Pressure tot + sum_list (map Pressure xs),
      Humidity = Humidity tot + sum_list (map Humidity xs)\<rparr>"
  by (induction xs arbitrary: tot) (simp_all add: accumulate_def add.assoc)

lemma word_sum_list:
  "sum_list (map f xs) = (word_of_int (sum_list (map (sint \<circ> f) xs)) :: 'a::len word)"
  by (induction xs) simp_all

lemma window_total:
  "foldl accumulate Env_zero xs =
     \<lparr>Temperature = word_of_int (sum_list (map (sint \<circ> Temperature) xs)),
      Pressure = word_of_int (sum_list (map (sint \<circ> Pressure) xs)),
      Humidity = word_of_int (sum_list (map (sint \<circ> Humidity) xs))\<rparr>"
  by (simp add: foldl_accumulate Env_zero_def word_sum_list [symmetric])

lemma sint_fits: "fits LENGTH('a) k \<longleftrightarrow> sint (word_of_int k :: 'a::len word) = k"
  by (simp add: fits_def sint_sbintrunc' signed_take_bit_int_eq_self_iff)




lemma ucast_down: "(ucast (word_of_int j :: int64) :: int32) = word_of_int j"
  by transfer (simp add: take_bit_take_bit)

lemma humidity_round_trip: "(ucast (scast (h :: int32) :: int64) :: int32) = h"
proof -
  have "(ucast (word_of_int (sint h) :: int64) :: int32) = word_of_int (sint h)"
    by (rule ucast_down)
  then show ?thesis by simp
qed




subsection \<open>The sink loop\<close>

lemma range_datapoints_attempts:
  "range_datapoints clock write_ok k ds =
     concat (map (attempt clock write_ok) (zip [k ..< k + length ds] ds))"
proof (induction ds arbitrary: k)
  case Nil
  show ?case by simp
next
  case (Cons d ds)
  have "[k ..< k + length (d # ds)] = k # [Suc k ..< Suc k + length ds]"
    by (simp add: upt_rec)
  then show ?case by (simp add: Cons.IH attempt_def)
qed

lemma written_attempts:
  "written (concat (map (attempt clock write_ok) kds)) =
     map (\<lambda>kd. NewPoint (snd kd) (clock (fst kd))) kds"
  by (induction kds) (simp_all add: attempt_def)

lemma printed_attempts:
  "printed (concat (map (attempt clock write_ok) kds)) = replicate (length kds) ''Writing record''"
  by (induction kds) (simp_all add: attempt_def)

subsection \<open>The polling loop and main\<close>

lemma readSensor_Sensed:
  "readSensor (Sensed env) logging = ([Sense, PrintEnv env, Send logging env], Returned)"
  by (simp add: readSensor_def)

lemma readSensor_SenseError: "readSensor SenseError logging = ([Sense, LogFatal], Exited 1)"
  by (simp add: readSensor_def)

lemma poll_loop_ticks:
  "poll_loop (\<lambda>dev. readSensor dev Logging) (map (Tick \<circ> Sensed) envs @ later) =
     (concat (map tick_actions envs) @ fst (poll_loop (\<lambda>dev. readSensor dev Logging) later),
      snd (poll_loop (\<lambda>dev. readSensor dev Logging) later))"
  by (induction envs) (simp_all add: readSensor_Sensed tick_actions_def split_beta)

lemma main_started:
  assumes "parseFlags (arg_window w) (arg_read_interval w) = Some (ws, ri)"
    and "healthy w" and "0 < sint (scast ri * Second :: int64)"
  shows "main w =
     leave [Close Averaged, Close Logging, DevHalt, BusClose] (at_close w)
       (startup ws (scast ri * Second) @
          fst (poll_loop (\<lambda>dev. readSensor dev Logging) (selects w)),
        snd (poll_loop (\<lambda>dev. readSensor dev Logging) (selects w)))"
  using assms
  by (simp add: main_def healthy_def getBus_def getDevice_def pollInterval_def startup_def
      split_beta Let_def)

lemma lab_flags: "parseFlags (arg_window (lab sel)) (arg_read_interval (lab sel)) = Some (8, 15)"
  by (simp add: lab_def parseFlags_def IntVar_def)

lemma lab_selects: "selects (lab sel) = sel"
  by (simp add: lab_def)

lemma lab_healthy: "healthy (lab sel)"
  by (simp add: lab_def healthy_def)

lemma lab_interval: "0 < sint (scast (15 :: go_int) * Second :: int64)"
  by (simp add: Second_def)

section \<open>The claims\<close>

subsection \<open>C1: one window, one mean\<close>




subsection \<open>C2: units at the sink\<close>

text \<open>
  C2, as the code has it. For every record the sink writer consumes it makes one write, of
  the point built from that record: the temperature in degrees Celsius (the reading less
  273.15 kelvin, over one kelvin, when that difference fits 64 bits), the pressure in
  hectopascal (a hundredth of the reading over one pascal) and the humidity in percent (the
  reading over one percent; between 0 and 100 for a reading between 0 and 100 percent).
  The conversions are made in the sink writer: the averager with a window of one hands a
  reading on unchanged, in sensor units. The conversions are taken in exact arithmetic.
\<close>

theorem sink_converts_units:
  "fst (logToDatabase clock write_ok datapoints c) =
     concat (map (attempt clock write_ok) (zip [0 ..< length datapoints] datapoints))
   \<and> (fits 64 (sint (Temperature data) - 273150000000) \<longrightarrow>
        temp (NewPoint data now) = (of_int (sint (Temperature data)) - 273150000000) / 1000000000)
   \<and> pressure (NewPoint data now) = of_int (sint (Pressure data)) / 100000000000
   \<and> humidity (NewPoint data now) = of_int (sint (Humidity data)) / 100000
   \<and> (0 \<le> sint (Humidity data) \<and> sint (Humidity data) \<le> 10000000 \<longrightarrow>
        0 \<le> humidity (NewPoint data now) \<and> humidity (NewPoint data now) \<le> 100)
   \<and> sent averages (fst (averageStream (Suc (Suc fuel)) 1 [data] c averages)) = [data]"
proof -
  have t: "fits 64 (sint (Temperature data) - 273150000000) \<Longrightarrow>
      sint (Temperature data - ZeroCelsius) = sint (Temperature data) - 273150000000"
  proof -
    assume f: "fits 64 (sint (Temperature data) - 273150000000)"
    have "Temperature data - ZeroCelsius = word_of_int (sint (Temperature data) - 273150000000)"
      by (simp add: ZeroCelsius_def)
    then show ?thesis
      using f sint_fits [where ?'a = 64, of "sint (Temperature data) - 273150000000"] by simp
  qed
  have full: "nat (sint (1 :: go_int)) \<le> length [data]" by simp
  have dry: "length ([] :: Env list) < nat (sint (1 :: go_int))" by simp
  have one: "average_total 1 (foldl accumulate Env_zero (take (nat (sint (1 :: go_int))) [data])) = Inr data"
    by (simp add: average_total_def accumulate_def Env_zero_def div64_def humidity_round_trip)
  have pass: "averaged (Suc (Suc fuel)) 1 [data] c averages =
      ([Send averages data], if c then Returned else Blocked)"
    by (simp add: averaged_Full [OF full one] averaged_Dry [OF dry])
  show ?thesis
    by (simp add: logToDatabase_def range_datapoints_attempts NewPoint_def Celsius_def t
        Kelvin_def Pascal_def PercentRH_def averageStream_averaged pass divide_simps
        del: of_int_sint)
qed

text \<open>
  At 20 degrees Celsius, one standard atmosphere and 40 percent: 20, 1013.25 and a humidity
  within 0 and 100.
\<close>

theorem sink_converts_units_witness:
  "temp (NewPoint reading 0) = 20 \<and> pressure (NewPoint reading 0) = 4053 / 4
   \<and> 0 \<le> humidity (NewPoint reading 0) \<and> humidity (NewPoint reading 0) \<le> 100"
proof -
  have 1: "fits 64 (sint (Temperature reading) - 273150000000)"
    by (simp add: reading_def fits_def)
  have 2: "0 \<le> sint (Humidity reading) \<and> sint (Humidity reading) \<le> 10000000"
    by (simp add: reading_def)
  show ?thesis
    using 1 2 sink_converts_units [of wall_clock sink_up "[]" True reading 0 Averaged 0]
    by (simp add: reading_def)
qed

text \<open>
  C2 as stated fails on the humidity: the reading of 40 percent is written as 40, not as a
  fraction between 0 and 1 (and one standard atmosphere is written as 1013.25). The integers
  4000000 and 100000 and their quotient 40 are exact in binary64 as well.
\<close>

theorem humidity_written_in_percent:
  "written (fst (logToDatabase wall_clock sink_up [reading] True)) =
     [\<lparr>measurement = ''env'', temp = 20, pressure = 4053 / 4, humidity = 40,
       stamp = 1700000000\<rparr>]
   \<and> humidity (NewPoint reading 1700000000) = 40
   \<and> \<not> humidity (NewPoint reading 1700000000) \<le> 1"
  by (simp add: logToDatabase_def NewPoint_def Celsius_def reading_def wall_clock_def sink_up_def
      ZeroCelsius_def Kelvin_def Pascal_def PercentRH_def)

subsection \<open>C3: the order of shutdown\<close>

text \<open>
  C3 does not hold of the code. The claim asks that on a termination signal the sampler's
  output channel be closed first and the averager's output channel never before it. On a
  signal the polling loop returns and \<^verbatim>\<open>main\<close> runs its deferred calls, the last
  registered first, so \<^verbatim>\<open>close(averaged)\<close> comes before \<^verbatim>\<open>close(logging)\<close>. In
  a run of three good ticks with a window of one, where the averager has a send pending on
  \<^verbatim>\<open>averaged\<close>, that send meets the closed channel: the process crashes after
  \<^verbatim>\<open>close(averaged)\<close>, with the sampler's channel still open, the device not halted
  and the bus not closed. In a run where no send is in the way the same order shows: the
  averager's output channel is closed, then the sampler's.
\<close>

theorem signal_closes_averaged_first:
  "main busy_shutdown =
     ([HostInit, OpenBus, NewDev, MakeChan Logging 1, MakeChan Averaged 1,
       Go (AverageStream 1), Go LogToDatabase, SignalNotify, NewTicker 1000000000,
       Print ''Hello'',
       Print ''Tick at'', Sense, PrintEnv reading, Send Logging reading,
       Print ''Tick at'', Sense, PrintEnv reading, Send Logging reading,
       Print ''Tick at'', Sense, PrintEnv reading, Send Logging reading,
       Print ''Signal received'', Close Averaged], Panicked SendOnClosedChannel)
   \<and> main (lab [Sig]) =
     ([HostInit, OpenBus, NewDev, MakeChan Logging 1, MakeChan Averaged 1,
       Go (AverageStream 8), Go LogToDatabase, SignalNotify, NewTicker 15000000000,
       Print ''Hello'', Print ''Signal received'',
       Close Averaged, Close Logging, DevHalt, BusClose], Exited 0)"
  by (simp add: main_def busy_shutdown_def lab_def parseFlags_def IntVar_def getBus_def
      getDevice_def pollInterval_def Second_def leave_def readSensor_def)

subsection \<open>C4: a failed write\<close>

text \<open>
  C4, as the code has it. Whatever the sink answers, the sink writer does the same three
  things for each record, in the order the records arrive: two prints and one write. What
  the write returns is dropped: there is exactly one write for each record, of the point
  built from it, so a failure is followed by no second attempt and the next record is
  written as any other; nothing is logged, and the only line printed is the one that
  precedes every write. The writer ends only by returning when its input is closed, or by
  waiting for it.
\<close>

theorem sink_failure_unreported:
  "logToDatabase clock write_ok datapoints c =
     (concat (map (attempt clock write_ok) (zip [0 ..< length datapoints] datapoints)),
      if c then Returned else Blocked)
   \<and> written (fst (logToDatabase clock write_ok datapoints c)) =
       map (\<lambda>kd. NewPoint (snd kd) (clock (fst kd))) (zip [0 ..< length datapoints] datapoints)
   \<and> length (written (fst (logToDatabase clock write_ok datapoints c))) = length datapoints
   \<and> LogFatal \<notin> set (fst (logToDatabase clock write_ok datapoints c))
   \<and> printed (fst (logToDatabase clock write_ok datapoints c)) =
       replicate (length datapoints) ''Writing record''"
proof -
  let ?kds = "zip [0 ..< length datapoints] datapoints"
  have run: "logToDatabase clock write_ok datapoints c =
      (concat (map (attempt clock write_ok) ?kds), if c then Returned else Blocked)"
    by (simp add: logToDatabase_def range_datapoints_attempts)
  have quiet: "LogFatal \<notin> set (concat (map (attempt clock write_ok) ?kds))"
    by (auto simp add: attempt_def)
  show ?thesis
    using quiet by (simp add: run written_attempts printed_attempts)
qed

text \<open>
  One record, the sink up, the input still open.
\<close>

theorem sink_failure_unreported_witness:
  "logToDatabase wall_clock sink_up [reading] False =
     ([Print ''Writing record'', PrintEnv reading,
       WritePoint (NewPoint reading 1700000000) True], Blocked)"
  using sink_failure_unreported [of wall_clock sink_up "[reading]" False]
  by (simp add: attempt_def wall_clock_def sink_up_def)

text \<open>
  C4 as stated fails on the report: the first write fails and the next action of the sink
  writer is the print for the second record.
\<close>

theorem failed_write_leaves_no_report:
  "logToDatabase wall_clock first_write_fails [reading, saturated] True =
     ([Print ''Writing record'', PrintEnv reading, WritePoint (NewPoint reading 1700000000) False,
       Print ''Writing record'', PrintEnv saturated,
       WritePoint (NewPoint saturated 1700000120) True],
      Returned)"
  by (simp add: logToDatabase_def first_write_fails_def wall_clock_def)

subsection \<open>C5: the flags\<close>




subsection \<open>C6: the width of the accumulator\<close>

text \<open>
  C6, as the code has it. The total that \<^verbatim>\<open>computeSum\<close> sends for a window of
  \<open>N \<ge> 1\<close> readings holds, in each field, the sum of that field wrapped to the field's own
  width: the accumulator is a reading itself, 64 bits for temperature and pressure and 32
  bits for humidity. It holds the true sum exactly when that sum fits the width.
\<close>

theorem accumulator_is_a_reading:
  assumes "1 \<le> sint steps" and "length xs = nat (sint steps)"
  shows "sent Totals (fst (computeSum (Suc (Suc fuel)) steps xs c Totals)) =
           [\<lparr>Temperature = word_of_int (sum_list (map (sint \<circ> Temperature) xs)),
             Pressure = word_of_int (sum_list (map (sint \<circ> Pressure) xs)),
             Humidity = word_of_int (sum_list (map (sint \<circ> Humidity) xs))\<rparr>]
         \<and> (sint (word_of_int (sum_list (map (sint \<circ> Temperature) xs)) :: int64) =
               sum_list (map (sint \<circ> Temperature) xs)
             \<longleftrightarrow> fits 64 (sum_list (map (sint \<circ> Temperature) xs)))
         \<and> (sint (word_of_int (sum_list (map (sint \<circ> Pressure) xs)) :: int64) =
               sum_list (map (sint \<circ> Pressure) xs)
             \<longleftrightarrow> fits 64 (sum_list (map (sint \<circ> Pressure) xs)))
         \<and> (sint (word_of_int (sum_list (map (sint \<circ> Humidity) xs)) :: int32) =
               sum_list (map (sint \<circ> Humidity) xs)
             \<longleftrightarrow> fits 32 (sum_list (map (sint \<circ> Humidity) xs)))"
proof -
  let ?n = "nat (sint steps)"
  have full: "?n \<le> length xs" and whole: "take ?n xs = xs" and rest: "drop ?n xs = []"
    using assms(2) by simp_all
  have dry: "length ([] :: Env list) < ?n" using assms(1) by simp
  have "sent Totals (fst (computeSum (Suc (Suc fuel)) steps xs c Totals)) =
      [foldl accumulate Env_zero xs]"
    by (simp add: computeSum_Full [OF full] whole rest computeSum_Dry [OF dry] sent_prints)
  then show ?thesis
    using sint_fits [where ?'a = 64] sint_fits [where ?'a = 32]
    by (simp add: window_total)
qed

text \<open>
  The totals of the end-to-end scenario.
\<close>

theorem accumulator_is_a_reading_witness:
  "sent Totals (fst (computeSum 2 3 scenario True Totals)) =
     [\<lparr>Temperature = 882450000000, Pressure = 300300000000000, Humidity = 12300000\<rparr>]"
proof -
  have 1: "1 \<le> sint (3 :: go_int)" by simp
  have 2: "length scenario = nat (sint (3 :: go_int))" by (simp add: scenario_def)
  show ?thesis
    using accumulator_is_a_reading [OF 1 2, of 0 True]
    by (simp add: numeral_2_eq_2) (simp add: scenario_def)
qed

text \<open>
  C6 as stated fails: 215 readings at 100 percent relative humidity sum to 2150000000, and
  the 32-bit accumulator holds \<open>-2144967296\<close>.
\<close>

theorem humid_hour_sum_wraps:
  "sent Totals (fst (computeSum 2 215 (replicate 215 saturated) False Totals)) =
     [\<lparr>Temperature = 63027250000000, Pressure = 21784875000000000, Humidity = - 2144967296\<rparr>]
   \<and> sint (- 2144967296 :: int32) = - 2144967296
   \<and> sum_list (map (sint \<circ> Humidity) (replicate 215 saturated)) = 2150000000"
proof -
  have full: "nat (sint (215 :: go_int)) \<le> length (replicate 215 saturated)" by simp
  have dry: "length ([] :: Env list) < nat (sint (215 :: go_int))" by simp
  have tot: "foldl accumulate Env_zero (replicate 215 saturated) =
      \<lparr>Temperature = 63027250000000, Pressure = 21784875000000000, Humidity = - 2144967296\<rparr>"
    by (simp add: window_total map_replicate sum_list_replicate saturated_def)
  have run: "sent Totals (fst (computeSum (Suc (Suc 0)) 215 (replicate 215 saturated) False Totals)) =
      [foldl accumulate Env_zero (replicate 215 saturated)]"
    by (simp add: computeSum_Full [OF full] computeSum_Dry [OF dry] sent_prints
        del: map_replicate)
  have s: "sum_list (map (sint \<circ> Humidity) (replicate 215 saturated)) = 2150000000"
    by (simp add: map_replicate sum_list_replicate saturated_def)
  show ?thesis
    using s run by (simp add: numeral_2_eq_2 tot)
qed

subsection \<open>C7: a window cut short\<close>

text \<open>
  C7, as the code has it. For every window size \<open>N \<ge> 1\<close> and every input that is closed
  after any number of readings, the averager sends one record for each complete window of
  \<open>N\<close> readings, in order, and none for the readings left over: as many records as \<open>N\<close>
  goes into the number of readings. \<^verbatim>\<open>computeSum\<close> then closes its output, the
  \<^verbatim>\<open>totals\<close> channel inside the averager, and \<^verbatim>\<open>averageStream\<close> returns; it
  closes no channel, so the channel to the sink writer is not closed by the averager.
\<close>

theorem partial_window_dropped:
  assumes "1 \<le> sint steps" and "length xs div nat (sint steps) < fuel"
  shows "map Inr (sent averages (fst (averageStream fuel steps xs True averages))) =
           map (\<lambda>ys. average_total steps (foldl accumulate Env_zero ys))
             (spec_windows (nat (sint steps)) xs)
         \<and> length (spec_windows (nat (sint steps)) xs) = length xs div nat (sint steps)
         \<and> snd (averageStream fuel steps xs True averages) = Returned
         \<and> Close Totals \<in> set (fst (computeSum fuel steps xs True Totals))
         \<and> (\<forall>ch. Close ch \<notin> set (fst (averageStream fuel steps xs True averages)))"
proof -
  have n: "0 < nat (sint steps)" using assms(1) by simp
  show ?thesis
    using averaged_windows [OF assms, of averages True]
      computeSum_closed_Close [OF assms, of Totals] length_spec_windows [OF n, of xs]
    by (simp add: averageStream_averaged)
qed

text \<open>
  Three readings and a window of two: one record, for the first two.
\<close>

theorem partial_window_dropped_witness:
  "sent Averaged (fst (averageStream 2 2 scenario True Averaged)) =
     [\<lparr>Temperature = 293650000000, Pressure = 100100000000000, Humidity = 4100000\<rparr>]
   \<and> snd (averageStream 2 2 scenario True Averaged) = Returned"
proof -
  have 1: "1 \<le> sint (2 :: go_int)" by simp
  have 2: "length scenario div nat (sint (2 :: go_int)) < 2" by (simp add: scenario_def)
  have w: "spec_windows 2 scenario = [take 2 scenario]"
    by (simp add: spec_windows.simps scenario_def)
  have a: "average_total 2 (foldl accumulate Env_zero (take 2 scenario)) =
      Inr \<lparr>Temperature = 293650000000, Pressure = 100100000000000, Humidity = 4100000\<rparr>"
    by (simp add: scenario_def average_total_def accumulate_def Env_zero_def div64_def signed_divide_int_def)
  show ?thesis
    using partial_window_dropped [OF 1 2, of Averaged]
    by (auto simp add: w a map_eq_Cons_conv)
qed

text \<open>
  C7 as stated fails on the closing: with one reading of a window of two and the input
  closed, \<^verbatim>\<open>averageStream\<close> starts \<^verbatim>\<open>computeSum\<close> and returns; the only channel
  closed is \<^verbatim>\<open>totals\<close>.
\<close>

theorem averager_leaves_averaged_open:
  "averageStream 2 2 [reading] True Averaged = ([Go (ComputeSum 2)], Returned)
   \<and> computeSum 2 2 [reading] True Totals =
       ([PrintEnv reading, Close Totals, Print ''computeSum finished''], Returned)"
  by (simp add: averageStream_def computeSum.simps numeral_2_eq_2)

subsection \<open>C8: release on the fatal path\<close>

text \<open>
  C8 does not hold of the code. When the first read of the sensor fails,
  \<^verbatim>\<open>log.Fatal\<close> ends the process with status 1 at once: the deferred halt of the
  device and close of the bus, which run when \<^verbatim>\<open>main\<close> returns, are not run.
\<close>

theorem fatal_read_skips_release:
  "main (lab [Tick SenseError]) =
     ([HostInit, OpenBus, NewDev, MakeChan Logging 1, MakeChan Averaged 1,
       Go (AverageStream 8), Go LogToDatabase, SignalNotify, NewTicker 15000000000,
       Print ''Hello'', Print ''Tick at'', Sense, LogFatal], Exited 1)"
  by (simp add: main_def lab_def parseFlags_def IntVar_def getBus_def getDevice_def
      pollInterval_def Second_def leave_def readSensor_def)

subsection \<open>C9: a failed read\<close>

text \<open>
  C9. When start-up has succeeded and, after any number of good ticks, the sensor read of a
  tick fails, the process ends with status 1 right after that read: nothing follows the
  fatal log, whatever the polling loop would have taken later, and the sensor has been read
  once per tick up to and including the failing one, so there is no second attempt and no
  further read.
\<close>

theorem sensor_failure_is_fatal:
  assumes "parseFlags (arg_window w) (arg_read_interval w) = Some (ws, ri)"
    and "healthy w" and "0 < sint (scast ri * Second :: int64)"
    and "selects w = map (Tick \<circ> Sensed) envs @ Tick SenseError # later"
  shows "main w =
           (startup ws (scast ri * Second) @ concat (map tick_actions envs) @
              [Print ''Tick at'', Sense, LogFatal], Exited 1) \<and>
         count_list (fst (main w)) Sense = Suc (length envs)"
proof -
  have m: "main w =
           (startup ws (scast ri * Second) @ concat (map tick_actions envs) @
              [Print ''Tick at'', Sense, LogFatal], Exited 1)"
    by (simp add: main_started [OF assms(1-3)] assms(4) poll_loop_ticks readSensor_SenseError
        leave_def)
  have c: "count_list (concat (map tick_actions envs)) Sense = length envs"
    by (induction envs) (simp_all add: tick_actions_def)
  show ?thesis
    by (simp add: m c) (simp add: startup_def)
qed

text \<open>
  A good tick, a failing one, and a tick that is never reached.
\<close>

theorem sensor_failure_is_fatal_witness:
  "main (lab [Tick (Sensed reading), Tick SenseError, Tick (Sensed reading)]) =
     (startup 8 15000000000 @ tick_actions reading @ [Print ''Tick at'', Sense, LogFatal],
      Exited 1)
   \<and> count_list (fst (main (lab [Tick (Sensed reading), Tick SenseError,
        Tick (Sensed reading)]))) Sense = 2"
  using sensor_failure_is_fatal [OF lab_flags lab_healthy lab_interval,
      of "[Tick (Sensed reading), Tick SenseError, Tick (Sensed reading)]" "[reading]"
         "[Tick (Sensed reading)]"]
  by (simp add: lab_selects Second_def startup_def tick_actions_def)

subsection \<open>C10: nothing guards the window size or the interval\<close>

text \<open>
  C10. \<^verbatim>\<open>parseFlags\<close> returns any two integers as given. With a window size of 0 the
  inner loop of \<^verbatim>\<open>computeSum\<close> runs no iteration and takes nothing from the input,
  a zero total is sent first, and \<^verbatim>\<open>averageStream\<close> panics on the division by the
  zero divisor before it sends anything. \<^verbatim>\<open>pollInterval\<close> makes its ticker from the
  interval as given, whatever its sign; \<^verbatim>\<open>time.NewTicker\<close> panics when it is not
  positive.
\<close>

theorem window_size_unchecked:
  "parseFlags (Value ws) (Value ri) = Some (ws, ri) \<and>
   window (nat (sint (0 :: go_int))) Env_zero input = ([], Full Env_zero input) \<and>
   computeSum (Suc fuel) 0 input c out =
     (Send out Env_zero # fst (computeSum fuel 0 input c out),
      snd (computeSum fuel 0 input c out)) \<and>
   averageStream (Suc fuel) 0 input c averages = ([Go (ComputeSum 0)], Panicked DivideByZero) \<and>
   take 2 (fst (pollInterval callable interval sel)) = [SignalNotify, NewTicker interval] \<and>
   (sint interval \<le> 0 \<longrightarrow>
      pollInterval callable interval sel =
        ([SignalNotify, NewTicker interval], Panicked NonPositiveTicker))"
  by (simp add: parseFlags_def IntVar_def averageStream_def average_total_def pollInterval_def
      split_beta computeSum.simps)

text \<open>
  An interval of minus five seconds.
\<close>

theorem window_size_unchecked_witness:
  "pollInterval (\<lambda>dev. readSensor dev Logging) (- 5000000000) [Tick (Sensed reading)] =
     ([SignalNotify, NewTicker (- 5000000000)], Panicked NonPositiveTicker)"
  using window_size_unchecked [of 0 "- 5" "[]" 0 False Totals Averaged
      "\<lambda>dev. readSensor dev Logging" "- 5000000000" "[Tick (Sensed reading)]"]
  by simp

end
